theory Spec2Isabelle
  imports Complex_Main "HOL-Library.Sublist" "HOL-Library.AList"
begin

section \<open>Characters and strings\<close>



text \<open>\<open>\d\<close> of module \<open>re\<close>.\<close>

definition is_digit :: "char \<Rightarrow> bool" where
  "is_digit c = (48 \<le> (of_char c :: nat) \<and> (of_char c :: nat) \<le> 57)"

definition is_upper :: "char \<Rightarrow> bool" where
  "is_upper c = (65 \<le> (of_char c :: nat) \<and> (of_char c :: nat) \<le> 90)"

definition is_lower :: "char \<Rightarrow> bool" where
  "is_lower c = (97 \<le> (of_char c :: nat) \<and> (of_char c :: nat) \<le> 122)"

text \<open>\<open>\w\<close> of module \<open>re\<close>: letters, digits and the underscore.\<close>

definition is_word :: "char \<Rightarrow> bool" where
  "is_word c = (is_digit c \<or> is_upper c \<or> is_lower c \<or> c = CHR ''_'')"

text \<open>
  \<open>\s\<close> of module \<open>re\<close>, which is also the white space of \<open>str.strip\<close> and
  \<open>str.split\<close>: tab, line feed, vertical tab, form feed, carriage return, the four
  separators 0x1C to 0x1F, and the space.
\<close>

definition is_space :: "char \<Rightarrow> bool" where
  "is_space c = ((9 \<le> (of_char c :: nat) \<and> (of_char c :: nat) \<le> 13)
               \<or> (28 \<le> (of_char c :: nat) \<and> (of_char c :: nat) \<le> 32))"

definition lower :: "char \<Rightarrow> char" where
  "lower c = (if is_upper c then char_of (of_char c + (32::nat)) else c)"

definition upper :: "char \<Rightarrow> char" where
  "upper c = (if is_lower c then char_of (of_char c - (32::nat)) else c)"

text \<open>\<open>str.lower\<close>.\<close>

definition str_lower :: "string \<Rightarrow> string" where
  "str_lower s = map lower s"

text \<open>\<open>str.capitalize\<close>: the first character in upper case, the others in lower case.\<close>

fun capitalize :: "string \<Rightarrow> string" where
  "capitalize [] = []"
| "capitalize (c # cs) = upper c # map lower cs"

text \<open>\<open>str.strip\<close> with no argument.\<close>

definition strip :: "string \<Rightarrow> string" where
  "strip s = rev (dropWhile is_space (rev (dropWhile is_space s)))"

text \<open>\<open>str.split\<close> with no argument: the maximal runs of characters that are not white space.\<close>

function split_ws :: "string \<Rightarrow> string list" where
  "split_ws s =
     (case dropWhile is_space s of
        [] \<Rightarrow> []
      | c # cs \<Rightarrow> takeWhile (\<lambda>x. \<not> is_space x) (c # cs)
                 # split_ws (dropWhile (\<lambda>x. \<not> is_space x) (c # cs)))"
  by pat_completeness auto
termination
proof (relation "measure length")
  show "wf (measure length)" by simp
next
  fix s :: string and c :: char and cs :: string
  assume d: "dropWhile is_space s = c # cs"
  then have "\<not> is_space c"
    by (metis hd_dropWhile list.sel(1) list.distinct(1))
  then have "length (dropWhile (\<lambda>x. \<not> is_space x) (c # cs)) \<le> length cs"
    by (simp add: length_dropWhile_le)
  moreover have "length (c # cs) \<le> length s"
    using d length_dropWhile_le [of is_space s] by simp
  ultimately show "(dropWhile (\<lambda>x. \<not> is_space x) (c # cs), s) \<in> measure length"
    by simp
qed

text \<open>\<open>" ".join\<close>.\<close>

fun join_sp :: "string list \<Rightarrow> string" where
  "join_sp [] = []"
| "join_sp [w] = w"
| "join_sp (w # v # ws) = w @ CHR '' '' # join_sp (v # ws)"

text \<open>
  \<open>x in s\<close> for strings: \<open>x\<close> occurs in \<open>s\<close> as a contiguous block.
\<close>

fun contains :: "string \<Rightarrow> string \<Rightarrow> bool" where
  "contains s [] = (s = [])"
| "contains s (c # cs) = (prefix s (c # cs) \<or> contains s cs)"

text \<open>
  \<open>s.replace(old, "")\<close>: the occurrences of \<open>old\<close> are found from the left, without
  overlap, and deleted.  With an empty \<open>old\<close> and an empty replacement the string is
  unchanged.
\<close>

function delete_all :: "string \<Rightarrow> string \<Rightarrow> string" where
  "delete_all old [] = []"
| "delete_all old (c # cs) =
     (if old = [] then c # cs
      else if prefix old (c # cs) then delete_all old (drop (length old) (c # cs))
      else c # delete_all old cs)"
  by pat_completeness auto
termination
  by (relation "measure (\<lambda>(old, s). length s)") auto

section \<open>The caption parser\<close>

text \<open>
  \<open>re.search(r"\b(19|20)\d{2}\b", caption)\<close>.  \<open>year_here\<close> is the match of
  \<open>(19|20)\d{2}\b\<close> at the head of a string; \<open>year_search\<close> scans from the left and
  carries whether the character before the current position is a word character, which
  decides the leading \<open>\b\<close> (the year starts with a digit, a word character).
\<close>

fun year_here :: "string \<Rightarrow> bool" where
  "year_here (a # b # c # d # rest) =
     ((([a, b] = ''19'') \<or> ([a, b] = ''20'')) \<and> is_digit c \<and> is_digit d
      \<and> (case rest of [] \<Rightarrow> True | e # _ \<Rightarrow> \<not> is_word e))"
| "year_here _ = False"

fun year_search :: "bool \<Rightarrow> string \<Rightarrow> string option" where
  "year_search prev_word [] = None"
| "year_search prev_word (c # cs) =
     (if \<not> prev_word \<and> year_here (c # cs) then Some (take 4 (c # cs))
      else year_search (is_word c) cs)"

text \<open>
  \<open>re.sub(r"\[.*?\]|\(.*?\)|\{.*?\}", " ", text)\<close>.  The three alternatives start with
  different characters, so at most one applies at a position.  \<open>.*?\<close> is lazy and the dot
  does not match a line feed: after an opening bracket the match ends at the first closing
  bracket of the same kind, and there is none when a line feed comes first.
\<close>

fun closer :: "char \<Rightarrow> char option" where
  "closer c =
     (if c = CHR ''['' then Some CHR '']''
      else if c = CHR ''('' then Some CHR '')''
      else if c = CHR ''{'' then Some CHR ''}''
      else None)"

fun after_closer :: "char \<Rightarrow> string \<Rightarrow> string option" where
  "after_closer cl [] = None"
| "after_closer cl (c # cs) =
     (if c = cl then Some cs
      else if c = CHR 0x0A then None
      else after_closer cl cs)"

function sub_brackets :: "string \<Rightarrow> string" where
  "sub_brackets [] = []"
| "sub_brackets (c # cs) =
     (case closer c of
        None \<Rightarrow> c # sub_brackets cs
      | Some cl \<Rightarrow>
          (case after_closer cl cs of
             None \<Rightarrow> c # sub_brackets cs
           | Some r \<Rightarrow> CHR '' '' # sub_brackets r))"
  by pat_completeness auto
termination
proof -
  have shorter: "after_closer cl s = Some r \<Longrightarrow> length r < Suc (length s)"
    for cl :: char and s r :: string
    by (induction s) (auto split: if_splits)
  show ?thesis
    by (relation "measure length") (auto dest: shorter)
qed

text \<open>\<open>re.sub(r"[^\w\s]", " ", text)\<close>.\<close>

definition sub_punct :: "string \<Rightarrow> string" where
  "sub_punct s = map (\<lambda>c. if is_word c \<or> is_space c then c else CHR '' '') s"

text \<open>\<open>re.sub(r"\s+", " ", text)\<close>.\<close>

function sub_spaces :: "string \<Rightarrow> string" where
  "sub_spaces [] = []"
| "sub_spaces (c # cs) =
     (if is_space c then CHR '' '' # sub_spaces (dropWhile is_space cs)
      else c # sub_spaces cs)"
  by pat_completeness auto
termination
  by (relation "measure length") (auto simp: length_dropWhile_le less_Suc_eq_le)

record parsed =
  title :: string
  year :: "string option"

text \<open>The working text of \<open>extract_title_year\<close> before the year is taken out (lines 42 to 45).\<close>

definition working_text :: "string \<Rightarrow> string" where
  "working_text caption = strip (sub_spaces (sub_punct (sub_brackets (str_lower caption))))"

definition extract_title_year :: "string \<Rightarrow> parsed" where
  "extract_title_year caption =
     (if caption = [] then \<lparr>title = [], year = None\<rparr>
      else
        let year = year_search False caption;
            text = working_text caption;
            text = (case year of None \<Rightarrow> text | Some y \<Rightarrow> strip (delete_all y text));
            title = (if text \<noteq> [] then join_sp (map capitalize (split_ws text)) else [])
        in \<lparr>title = title, year = year\<rparr>)"

section \<open>The category classifier\<close>

definition detect_category :: "string option \<Rightarrow> string" where
  "detect_category caption =
     (let c = str_lower (case caption of None \<Rightarrow> [] | Some s \<Rightarrow> s)
      in if list_ex (\<lambda>x. contains x c) [''tamil'', ''telugu'', ''malayalam'', ''kannada'']
         then ''south''
         else if contains ''dubbed'' c \<or> contains ''dual audio'' c then ''hollywood''
         else if contains ''hindi'' c then ''bollywood''
         else ''hollywood'')"

section \<open>Python values and exceptions\<close>

text \<open>
  The metadata provider answers with JSON, which \<open>r.json()\<close> turns into Python values:
  \<open>None\<close>, booleans, integers, floats, strings, lists and dictionaries.  A dictionary is
  an association list in insertion order; a float is identified with the real number it
  denotes.  The documents sent to the store are dictionaries of the same values.
\<close>

datatype json =
    JNull
  | JBool bool
  | JInt int
  | JReal real
  | JStr string
  | JArr "json list"
  | JObj "(string \<times> json) list"

type_synonym doc = "(string \<times> json) list"

datatype py_error =
    AttributeError
  | TypeError
  | ValueError
  | KeyError
  | OverflowError
  | UnboundLocalError

text \<open>A raised exception is \<open>Inl\<close>; \<open>and_then\<close> sequences two evaluations.\<close>

definition and_then :: "py_error + 'a \<Rightarrow> ('a \<Rightarrow> py_error + 'b) \<Rightarrow> py_error + 'b" where
  "and_then m f = (case m of Inl e \<Rightarrow> Inl e | Inr x \<Rightarrow> f x)"

text \<open>Truth value testing: \<open>if x\<close>, \<open>not x\<close>, \<open>x or y\<close>.\<close>

fun truthy :: "json \<Rightarrow> bool" where
  "truthy JNull = False"
| "truthy (JBool b) = b"
| "truthy (JInt n) = (n \<noteq> 0)"
| "truthy (JReal r) = (r \<noteq> 0)"
| "truthy (JStr s) = (s \<noteq> [])"
| "truthy (JArr xs) = (xs \<noteq> [])"
| "truthy (JObj kvs) = (kvs \<noteq> [])"

definition py_or :: "json \<Rightarrow> json \<Rightarrow> json" where
  "py_or a b = (if truthy a then a else b)"

text \<open>\<open>d.get(k, default)\<close> and \<open>d.get(k)\<close>; only a dictionary has the method.\<close>

fun py_get_default :: "json \<Rightarrow> string \<Rightarrow> json \<Rightarrow> py_error + json" where
  "py_get_default (JObj kvs) k dflt = Inr (case map_of kvs k of None \<Rightarrow> dflt | Some v \<Rightarrow> v)"
| "py_get_default _ k dflt = Inl AttributeError"

definition py_get :: "json \<Rightarrow> string \<Rightarrow> py_error + json" where
  "py_get d k = py_get_default d k JNull"

text \<open>
  Iteration (\<open>for x in v\<close>): the elements of a list, the keys of a dictionary, the
  characters of a string; anything else is not iterable.
\<close>

fun py_iter :: "json \<Rightarrow> py_error + json list" where
  "py_iter (JArr xs) = Inr xs"
| "py_iter (JObj kvs) = Inr (map (\<lambda>kv. JStr (fst kv)) kvs)"
| "py_iter (JStr s) = Inr (map (\<lambda>c. JStr [c]) s)"
| "py_iter _ = Inl TypeError"

text \<open>\<open>v[0]\<close> on a value that is truthy.\<close>

fun py_first :: "json \<Rightarrow> py_error + json" where
  "py_first (JArr (x # xs)) = Inr x"
| "py_first (JStr (c # cs)) = Inr (JStr [c])"
| "py_first (JObj kvs) = Inl KeyError"
| "py_first _ = Inl TypeError"

text \<open>\<open>s.lower()\<close>; only a string has the method.\<close>

fun py_lower :: "json \<Rightarrow> py_error + string" where
  "py_lower (JStr s) = Inr (str_lower s)"
| "py_lower _ = Inl AttributeError"

text \<open>A list comprehension whose element expression may raise: the first exception ends it.\<close>

fun map_raising :: "('a \<Rightarrow> py_error + 'b) \<Rightarrow> 'a list \<Rightarrow> py_error + 'b list" where
  "map_raising f [] = Inr []"
| "map_raising f (x # xs) =
     and_then (f x) (\<lambda>y. and_then (map_raising f xs) (\<lambda>ys. Inr (y # ys)))"

text \<open>\<open>", ".join(xs)\<close>: every element has to be a string.\<close>

fun py_join :: "json list \<Rightarrow> py_error + string" where
  "py_join [] = Inr []"
| "py_join [JStr s] = Inr s"
| "py_join (JStr s # v # vs) = and_then (py_join (v # vs)) (\<lambda>r. Inr (s @ '', '' @ r))"
| "py_join _ = Inl TypeError"

section \<open>The environment of the handler\<close>

text \<open>
  What the handler reads from outside the program is a parameter of the model:
  \<^item> \<open>search q y\<close> is what \<open>tmdb_search\<close> returns for the query \<open>q\<close> and the optional
    year \<open>y\<close>: the \<open>results\<close> member of the provider's answer, and \<open>[]\<close> after any
    failure of the call;
  \<^item> \<open>details i\<close> is what \<open>tmdb_details\<close> returns: the provider's answer, and \<open>None\<close>
    after any failure;
  \<^item> \<open>clock\<close> is \<open>datetime.utcnow().isoformat()\<close>;
  \<^item> \<open>repr\<close> is the text an f-string puts in place of a value that is not a string;
  \<^item> \<open>str_to_int\<close> and \<open>str_to_float\<close> are \<open>int\<close> and \<open>float\<close> on a string, \<open>None\<close>
    where they raise \<open>ValueError\<close>;
  \<^item> \<open>int_to_float\<close> is \<open>float\<close> on an integer: the float nearest to it, \<open>None\<close> where
    the integer is too large and \<open>float\<close> raises \<open>OverflowError\<close>.
\<close>

record env =
  search :: "string \<Rightarrow> string option \<Rightarrow> json"
  details :: "json \<Rightarrow> json"
  clock :: string
  repr :: "json \<Rightarrow> string"
  str_to_int :: "string \<Rightarrow> int option"
  str_to_float :: "string \<Rightarrow> real option"
  int_to_float :: "int \<Rightarrow> real option"

definition tmdb_search :: "env \<Rightarrow> string \<Rightarrow> string option \<Rightarrow> json" where
  "tmdb_search e query yr =
     search e query (case yr of None \<Rightarrow> None | Some y \<Rightarrow> if y \<noteq> [] then Some y else None)"

definition tmdb_details :: "env \<Rightarrow> json \<Rightarrow> json" where
  "tmdb_details e i = details e i"

definition utc_now :: "env \<Rightarrow> string" where
  "utc_now e = clock e @ ''Z''"

text \<open>The value of \<open>{v}\<close> in an f-string.\<close>

definition py_format :: "env \<Rightarrow> json \<Rightarrow> string" where
  "py_format e v = (case v of JStr s \<Rightarrow> s | _ \<Rightarrow> repr e v)"

text \<open>\<open>int(v)\<close> and \<open>float(v)\<close>.\<close>

fun py_int :: "env \<Rightarrow> json \<Rightarrow> py_error + int" where
  "py_int e (JInt n) = Inr n"
| "py_int e (JBool b) = Inr (if b then 1 else 0)"
| "py_int e (JReal r) = Inr (if 0 \<le> r then \<lfloor>r\<rfloor> else \<lceil>r\<rceil>)"
| "py_int e (JStr s) = (case str_to_int e s of None \<Rightarrow> Inl ValueError | Some n \<Rightarrow> Inr n)"
| "py_int e _ = Inl TypeError"

fun py_float :: "env \<Rightarrow> json \<Rightarrow> py_error + real" where
  "py_float e (JInt n) = (case int_to_float e n of None \<Rightarrow> Inl OverflowError | Some r \<Rightarrow> Inr r)"
| "py_float e (JBool b) = Inr (if b then 1 else 0)"
| "py_float e (JReal r) = Inr r"
| "py_float e (JStr s) = (case str_to_float e s of None \<Rightarrow> Inl ValueError | Some r \<Rightarrow> Inr r)"
| "py_float e _ = Inl TypeError"

section \<open>The record builder\<close>

text \<open>
  The loop over the crew (lines 101 to 106) keeps the first director and the first
  producer it meets; its state is the pair of the two variables.
\<close>

definition crew_step :: "json \<Rightarrow> json \<times> json \<Rightarrow> py_error + json \<times> json" where
  "crew_step member dp =
     (case dp of (director, producer) \<Rightarrow>
        and_then (py_get member ''job'') (\<lambda>j.
        and_then (py_lower (py_or j (JStr []))) (\<lambda>job.
        and_then (if job = ''director'' \<and> \<not> truthy director
                  then and_then (py_get member ''name'') (\<lambda>n. Inr (py_or n (JStr [])))
                  else Inr director) (\<lambda>director'.
        and_then (if job = ''producer'' \<and> \<not> truthy producer
                  then and_then (py_get member ''name'') (\<lambda>n. Inr (py_or n (JStr [])))
                  else Inr producer) (\<lambda>producer'.
        Inr (director', producer'))))))"

fun crew_loop :: "json list \<Rightarrow> json \<times> json \<Rightarrow> py_error + json \<times> json" where
  "crew_loop [] dp = Inr dp"
| "crew_loop (member # members) dp = and_then (crew_step member dp) (crew_loop members)"

text \<open>The loop over the videos (lines 109 to 116), left at the first trailer with a key.\<close>

fun trailer_loop :: "env \<Rightarrow> json list \<Rightarrow> py_error + string" where
  "trailer_loop e [] = Inr []"
| "trailer_loop e (v # vs) =
     and_then (py_get v ''type'') (\<lambda>t.
     and_then (py_lower (py_or t (JStr []))) (\<lambda>ty.
       if ty = ''trailer''
       then and_then (py_get v ''site'') (\<lambda>s.
            and_then (py_lower (py_or s (JStr []))) (\<lambda>site.
              if site = ''youtube''
              then and_then (py_get v ''key'') (\<lambda>key.
                     if truthy key
                     then Inr (''https://www.youtube.com/watch?v='' @ py_format e key)
                     else trailer_loop e vs)
              else trailer_loop e vs))
       else trailer_loop e vs))"

definition build_img :: "env \<Rightarrow> json \<Rightarrow> string" where
  "build_img e path =
     (if truthy path then ''https://image.tmdb.org/t/p/original'' @ py_format e path else [])"

text \<open>\<open>(tmdb.get(k, {}) or {}).get(k', []) if tmdb else []\<close>, of lines 94, 98 and 110.\<close>

definition nested_list :: "json \<Rightarrow> string \<Rightarrow> string \<Rightarrow> py_error + json" where
  "nested_list tmdb k k' =
     (if truthy tmdb
      then and_then (py_get_default tmdb k (JObj [])) (\<lambda>d.
             py_get_default (py_or d (JObj [])) k' (JArr []))
      else Inr (JArr []))"

text \<open>\<open>tmdb.get(k) if tmdb else ""\<close>.\<close>

definition field_or_empty :: "json \<Rightarrow> string \<Rightarrow> py_error + json" where
  "field_or_empty tmdb k = (if truthy tmdb then py_get tmdb k else Inr (JStr []))"

text \<open>
  \<open>build_ordered_doc\<close>.  The document is the association list of the dictionary display
  of lines 133 to 155, in the order in which the keys are written there.
\<close>

definition build_ordered_doc ::
  "env \<Rightarrow> json \<Rightarrow> json \<Rightarrow> string option \<Rightarrow> string \<Rightarrow> py_error + doc" where
  "build_ordered_doc e tmdb parsed_title file_id category =
     (let now = utc_now e in
      and_then (nested_list tmdb ''credits'' ''cast'') (\<lambda>cast.
      and_then (if truthy cast
                then and_then (py_iter cast) (\<lambda>cs.
                     and_then (map_raising (\<lambda>c. py_get c ''name'') cs) (\<lambda>names.
                       py_join (take 10 names)))
                else Inr []) (\<lambda>actors_str.
      and_then (nested_list tmdb ''credits'' ''crew'') (\<lambda>crew.
      and_then (py_iter crew) (\<lambda>members.
      and_then (crew_loop members (JStr [], JStr [])) (\<lambda>dp.
      and_then (nested_list tmdb ''videos'' ''results'') (\<lambda>videos.
      and_then (py_iter videos) (\<lambda>vs.
      and_then (trailer_loop e vs) (\<lambda>trailer.
      and_then (if truthy tmdb
                then and_then (py_get tmdb ''genres'') (\<lambda>g.
                     and_then (py_iter (py_or g (JArr []))) (\<lambda>gs.
                     and_then (map_raising (\<lambda>g. py_get g ''name'') gs) (\<lambda>names.
                       Inr (JArr names))))
                else Inr (JArr [])) (\<lambda>genres.
      and_then (if truthy tmdb
                then and_then (py_get tmdb ''release_date'') (\<lambda>r.
                       Inr (if truthy r then r else JStr []))
                else Inr (JStr [])) (\<lambda>releaseDate.
      let runtime =
            (if truthy tmdb
             then (case and_then (py_get tmdb ''runtime'') (\<lambda>r. py_int e (py_or r (JInt 0))) of
                     Inl _ \<Rightarrow> 0 | Inr n \<Rightarrow> n)
             else 0);
          rating =
            (if truthy tmdb
             then (case and_then (py_get tmdb ''vote_average'')
                           (\<lambda>r. py_float e (py_or r (JInt 0))) of
                     Inl _ \<Rightarrow> 0 | Inr x \<Rightarrow> x)
             else 0)
      in
      and_then (if truthy parsed_title then Inr parsed_title
                else and_then (field_or_empty tmdb ''title'') (\<lambda>t.
                       Inr (py_or t (JStr [])))) (\<lambda>title.
      and_then (if truthy tmdb
                then and_then (py_get tmdb ''poster_path'') (\<lambda>p. Inr (build_img e p))
                else Inr []) (\<lambda>posterUrl.
      and_then (if truthy tmdb
                then and_then (py_get tmdb ''backdrop_path'') (\<lambda>p. Inr (build_img e p))
                else Inr []) (\<lambda>backdropUrl.
      and_then (field_or_empty tmdb ''overview'') (\<lambda>description.
      and_then (field_or_empty tmdb ''tagline'') (\<lambda>tagline.
      Inr [(''title'', title),
           (''posterUrl'', JStr posterUrl),
           (''backdropUrl'', JStr backdropUrl),
           (''description'', description),
           (''category'', JStr (if category \<noteq> [] then category else ''hollywood'')),
           (''actors'', JStr actors_str),
           (''director'', fst dp),
           (''producer'', snd dp),
           (''rating'', JReal rating),
           (''downloadLinks'', JArr []),
           (''telegramLinks'',
              JArr [JStr (case file_id of None \<Rightarrow> [] | Some f \<Rightarrow> f)]),
           (''seasons'', JArr []),
           (''trailerLink'', JStr trailer),
           (''genres'', genres),
           (''releaseDate'', releaseDate),
           (''runtime'', JInt runtime),
           (''tagline'', tagline),
           (''createdAt'', JStr now),
           (''updatedAt'', JStr now),
           (''__v'', JInt 0)]))))))))))))))))"

section \<open>The document store\<close>

text \<open>
  The collection is an external collaborator (MongoDB behind \<open>pymongo\<close>); the handler
  uses \<open>find_one\<close> and \<open>find_one_and_replace\<close> with \<open>upsert=True\<close>.  It is modelled as
  the list of its documents: a filter of equalities selects the documents that have every
  named field with the given value, \<open>find_one\<close> returns the first of them, and
  \<open>find_one_and_replace\<close> puts the replacement in the place of the first of them or,
  when there is none, inserts it.  The identifier \<open>_id\<close> that the store assigns is not
  modelled; the handler only logs it.
\<close>

definition matches :: "doc \<Rightarrow> doc \<Rightarrow> bool" where
  "matches flt d = list_all (\<lambda>kv. map_of d (fst kv) = Some (snd kv)) flt"

definition find_one :: "doc list \<Rightarrow> doc \<Rightarrow> doc option" where
  "find_one st flt = List.find (matches flt) st"

fun replace_first :: "('a \<Rightarrow> bool) \<Rightarrow> 'a \<Rightarrow> 'a list \<Rightarrow> 'a list" where
  "replace_first P y [] = []"
| "replace_first P y (x # xs) = (if P x then y # xs else x # replace_first P y xs)"

definition find_one_and_replace :: "doc list \<Rightarrow> doc \<Rightarrow> doc \<Rightarrow> doc list" where
  "find_one_and_replace st flt d =
     (if list_ex (matches flt) st then replace_first (matches flt) d st else st @ [d])"

section \<open>The message handler\<close>

record media =
  media_file_id :: "string option"

record message =
  msg_video :: "media option"
  msg_document :: "media option"
  msg_caption :: "string option"

text \<open>
  What a call of \<open>handle\<close> ends with: it returns early without a message or without
  media, an exception leaves it, it returns because the details are not available, or it
  has written a document to the store.
\<close>

datatype outcome =
    NoMessage
  | NoMedia
  | Raised py_error
  | NoDetails
  | Saved doc

text \<open>\<open>d[k]\<close> on a dictionary.\<close>

fun py_item :: "json \<Rightarrow> string \<Rightarrow> py_error + json" where
  "py_item (JObj kvs) k = (case map_of kvs k of None \<Rightarrow> Inl KeyError | Some v \<Rightarrow> Inr v)"
| "py_item _ k = Inl TypeError"

text \<open>
  Reading a local variable of the running function that has not been assigned yet
  raises \<open>UnboundLocalError\<close>.
\<close>

definition unbound_local :: "string \<Rightarrow> py_error + json" where
  "unbound_local name = Inl UnboundLocalError"

text \<open>\<open>parsed["title"] or caption or ""\<close> of line 171.\<close>

definition title_for_search :: "string \<Rightarrow> string" where
  "title_for_search caption =
     (let p = extract_title_year caption in if title p \<noteq> [] then title p else caption)"

text \<open>
  The search attempts of lines 175 to 181.  Next to the results, the model returns the
  calls of \<open>tmdb_search\<close> in the order in which they are made, each as the pair of the
  query and the year argument.
\<close>

type_synonym attempt = "string \<times> string option"

definition search_attempts :: "env \<Rightarrow> string \<Rightarrow> json \<times> attempt list" where
  "search_attempts e caption =
     (let q = title_for_search caption;
          year_for_search = year (extract_title_year caption);
          a = (case year_for_search of
                 None \<Rightarrow> (JArr [], [])
               | Some y \<Rightarrow>
                   if y \<noteq> [] then (tmdb_search e q (Some y), [(q, Some y)])
                   else (JArr [], []));
          b = (if \<not> truthy (fst a) then (tmdb_search e q None, snd a @ [(q, None)]) else a);
          c = (if \<not> truthy (fst b) \<and> caption \<noteq> [] \<and> caption \<noteq> q
               then (tmdb_search e caption None, snd b @ [(caption, None)]) else b)
      in c)"

text \<open>
  The branch of lines 183 to 215.  The dictionary display of \<open>minimal_doc\<close> reads the
  local variable \<open>tmdb\<close> in the value of \<open>genres\<close> (line 203); \<open>tmdb\<close> is assigned at
  line 219 only, after this branch has returned.  The values written before \<open>genres\<close>
  in the display raise nothing and have no effect.
\<close>

definition minimal_path ::
  "env \<Rightarrow> string \<Rightarrow> media \<Rightarrow> doc list \<Rightarrow> py_error + doc \<times> doc list" where
  "minimal_path e caption m st =
     (let parsed = extract_title_year caption;
          now = utc_now e;
          category = detect_category (Some caption);
          file_id = media_file_id m
      in
      and_then (unbound_local ''tmdb'') (\<lambda>tmdb.
      and_then (py_get_default tmdb ''genres'' (JArr [])) (\<lambda>g.
      and_then (py_iter g) (\<lambda>gs.
      and_then (map_raising (\<lambda>g.
                  and_then (py_item g ''id'') (\<lambda>i.
                  and_then (py_item g ''name'') (\<lambda>n.
                    Inr (JObj [(''id'', i), (''name'', n)])))) gs) (\<lambda>genres.
      let minimal_doc =
            [(''title'', JStr (if title parsed \<noteq> [] then title parsed else caption)),
             (''posterUrl'', JStr []),
             (''backdropUrl'', JStr []),
             (''description'', JStr []),
             (''category'', JStr category),
             (''actors'', JStr []),
             (''director'', JStr []),
             (''producer'', JStr []),
             (''rating'', JReal 0),
             (''downloadLinks'', JArr []),
             (''telegramLinks'',
                JArr [JStr (case file_id of None \<Rightarrow> [] | Some f \<Rightarrow> f)]),
             (''seasons'', JArr []),
             (''trailerLink'', JStr []),
             (''genres'', JArr genres),
             (''releaseDate'', JStr (case year parsed of None \<Rightarrow> [] | Some y \<Rightarrow> y)),
             (''runtime'', JInt 0),
             (''tagline'', JStr []),
             (''createdAt'', JStr now),
             (''updatedAt'', JStr now),
             (''__v'', JInt 0)];
          filter_q = [(''title'', JStr (if title parsed \<noteq> [] then title parsed else caption)),
                      (''releaseDate'',
                         JStr (case year parsed of None \<Rightarrow> [] | Some y \<Rightarrow> y))]
      in Inr (minimal_doc, find_one_and_replace st filter_q minimal_doc))))))"

text \<open>
  Lines 217 to 238: the details of the first candidate, the document, the creation time
  of an existing document with the same title and release date, and the write.
\<close>

definition preserve_created :: "doc list \<Rightarrow> doc \<Rightarrow> doc \<Rightarrow> py_error + doc" where
  "preserve_created st filter_q ordered_doc =
     (case find_one st filter_q of
        None \<Rightarrow> Inr ordered_doc
      | Some existing \<Rightarrow>
          and_then (py_get (JObj existing) ''createdAt'') (\<lambda>old.
          and_then (if truthy old then Inr old
                    else py_item (JObj ordered_doc) ''createdAt'') (\<lambda>created.
            Inr (AList.update ''createdAt'' created ordered_doc))))"

definition full_path ::
  "env \<Rightarrow> string \<Rightarrow> media \<Rightarrow> json \<Rightarrow> doc list \<Rightarrow> outcome \<times> doc list" where
  "full_path e caption m results st =
     (case and_then (py_first results) (\<lambda>r. py_get r ''id'') of
        Inl err \<Rightarrow> (Raised err, st)
      | Inr tmdb_id \<Rightarrow>
          let tmdb = (if truthy tmdb_id then tmdb_details e tmdb_id else JNull) in
          if \<not> truthy tmdb then (NoDetails, st)
          else
            let parsed = extract_title_year caption;
                file_id = media_file_id m;
                category = detect_category (Some caption)
            in
            (case
               and_then (if title parsed \<noteq> [] then Inr (JStr (title parsed))
                         else and_then (py_get tmdb ''title'') (\<lambda>t.
                                Inr (py_or t (JStr [])))) (\<lambda>parsed_title.
               and_then (build_ordered_doc e tmdb parsed_title file_id category) (\<lambda>ordered_doc.
               and_then (py_item (JObj ordered_doc) ''title'') (\<lambda>t.
               and_then (py_item (JObj ordered_doc) ''releaseDate'') (\<lambda>r.
               let filter_q = [(''title'', t), (''releaseDate'', r)] in
               and_then (preserve_created st filter_q ordered_doc) (\<lambda>ordered_doc.
                 Inr (ordered_doc, find_one_and_replace st filter_q ordered_doc))))))
             of
               Inl err \<Rightarrow> (Raised err, st)
             | Inr (d, st') \<Rightarrow> (Saved d, st')))"

text \<open>\<open>msg.video or msg.document\<close> and \<open>msg.caption or ""\<close>.\<close>

definition message_media :: "message \<Rightarrow> media option" where
  "message_media msg = (case msg_video msg of Some v \<Rightarrow> Some v | None \<Rightarrow> msg_document msg)"

definition message_caption :: "message \<Rightarrow> string" where
  "message_caption msg = (case msg_caption msg of None \<Rightarrow> [] | Some c \<Rightarrow> c)"

text \<open>
  \<open>handle\<close>: the outcome, the store after the call, and the search attempts made.
\<close>

definition handle ::
  "env \<Rightarrow> message option \<Rightarrow> doc list \<Rightarrow> outcome \<times> doc list \<times> attempt list" where
  "handle e update st =
     (case update of
        None \<Rightarrow> (NoMessage, st, [])
      | Some msg \<Rightarrow>
          (case message_media msg of
             None \<Rightarrow> (NoMedia, st, [])
           | Some m \<Rightarrow>
               let caption = message_caption msg;
                   sr = search_attempts e caption;
                   results = fst sr
               in
               if \<not> truthy results
               then (case minimal_path e caption m st of
                       Inl err \<Rightarrow> (Raised err, st, snd sr)
                     | Inr (d, st') \<Rightarrow> (Saved d, st', snd sr))
               else (case full_path e caption m results st of
                       (out, st') \<Rightarrow> (out, st', snd sr))))"

section \<open>The properties, in the words of the specification\<close>

text \<open>
  The classifier as the specification describes it: a keyword occurs in the caption when
  some block of the caption, as long as the keyword, equals it up to the case of the
  letters; the rules are tried in the stated priority order.
\<close>

definition occurs_ci :: "string \<Rightarrow> string \<Rightarrow> bool" where
  "occurs_ci kw s =
     list_ex (\<lambda>i. map lower (take (length kw) (drop i s)) = map lower kw) [0..<Suc (length s)]"

definition classify_spec :: "string option \<Rightarrow> string" where
  "classify_spec caption =
     (let s = (case caption of None \<Rightarrow> [] | Some s \<Rightarrow> s) in
      if occurs_ci ''tamil'' s \<or> occurs_ci ''telugu'' s \<or> occurs_ci ''malayalam'' s
         \<or> occurs_ci ''kannada'' s then ''south''
      else if occurs_ci ''dubbed'' s \<or> occurs_ci ''dual audio'' s then ''hollywood''
      else if occurs_ci ''hindi'' s then ''bollywood''
      else ''hollywood'')"



text \<open>
  The order of the search attempts.  A plan is the list of the attempts that may be
  made; the attempts issued are those of the plan up to the first one that the provider
  answers with a result that is not empty.
\<close>

fun until_hit :: "env \<Rightarrow> attempt list \<Rightarrow> attempt list" where
  "until_hit e [] = []"
| "until_hit e (a # as) =
     a # (if truthy (tmdb_search e (fst a) (snd a)) then [] else until_hit e as)"

text \<open>
  The plan as the specification states it: the parsed title with the parsed year when a
  year was parsed, the parsed title alone, the raw caption when it differs from the
  parsed title.
\<close>

definition stated_plan :: "string \<Rightarrow> attempt list" where
  "stated_plan caption =
     (let p = extract_title_year caption in
      (case year p of None \<Rightarrow> [] | Some y \<Rightarrow> [(title p, Some y)])
      @ [(title p, None)]
      @ (if caption \<noteq> title p then [(caption, None)] else []))"

text \<open>
  The plan with the search title in the place of the parsed title: the search title is
  the parsed title, and the raw caption when the parsed title is empty; the raw caption
  is tried last when the parsed title is not empty and differs from it.
\<close>

definition search_plan :: "string \<Rightarrow> attempt list" where
  "search_plan caption =
     (let p = extract_title_year caption;
          q = (if title p = [] then caption else title p) in
      (case year p of None \<Rightarrow> [] | Some y \<Rightarrow> [(q, Some y)])
      @ [(q, None)]
      @ (if title p \<noteq> [] \<and> caption \<noteq> title p then [(caption, None)] else []))"

text \<open>The fields of a record in the order of the data model.\<close>

definition field_order :: "string list" where
  "field_order =
     [''title'', ''posterUrl'', ''backdropUrl'', ''description'', ''category'', ''actors'',
      ''director'', ''producer'', ''rating'', ''downloadLinks'', ''telegramLinks'',
      ''seasons'', ''trailerLink'', ''genres'', ''releaseDate'', ''runtime'', ''tagline'',
      ''createdAt'', ''updatedAt'', ''__v'']"

text \<open>The identity key of a document, as the filter that selects it.\<close>

definition key_filter :: "doc \<Rightarrow> doc" where
  "key_filter d =
     [(''title'', case map_of d ''title'' of None \<Rightarrow> JNull | Some v \<Rightarrow> v),
      (''releaseDate'', case map_of d ''releaseDate'' of None \<Rightarrow> JNull | Some v \<Rightarrow> v)]"

section \<open>Notions used in the statements and proofs\<close>

text \<open>
  Two expressions of the handler by name: \<open>results[0].get("id")\<close> of line 218, and the
  second argument of \<open>build_ordered_doc\<close> at line 228,
  \<open>parsed["title"] or (tmdb.get("title") or "")\<close>.
\<close>

definition candidate_id :: "json \<Rightarrow> py_error + json" where
  "candidate_id results = and_then (py_first results) (\<lambda>r. py_get r ''id'')"

definition title_argument :: "string \<Rightarrow> json \<Rightarrow> py_error + json" where
  "title_argument caption tmdb =
     (if title (extract_title_year caption) \<noteq> []
      then Inr (JStr (title (extract_title_year caption)))
      else and_then (py_get tmdb ''title'') (\<lambda>t. Inr (py_or t (JStr []))))"

text \<open>
  The value of \<open>existing.get("createdAt") or ordered_doc["createdAt"]\<close> of line 234, where
  the document has just been built and its \<open>createdAt\<close> is the time of the call.
\<close>

definition kept_created_at :: "env \<Rightarrow> doc \<Rightarrow> json" where
  "kept_created_at e existing =
     (case map_of existing ''createdAt'' of
        None \<Rightarrow> JStr (utc_now e)
      | Some old \<Rightarrow> if truthy old then old else JStr (utc_now e))"



section \<open>Example inputs\<close>

text \<open>A provider that finds nothing, and one that knows a single film.\<close>

definition silent_env :: env where
  "silent_env =
     \<lparr>search = (\<lambda>q y. JArr []), details = (\<lambda>i. JNull),
      clock = ''2024-01-01T00:00:00'', repr = (\<lambda>v. []),
      str_to_int = (\<lambda>s. None), str_to_float = (\<lambda>s. None),
      int_to_float = (\<lambda>n. Some (of_int n))\<rparr>"

definition inception :: json where
  "inception =
     JObj [(''title'', JStr ''Inception''), (''release_date'', JStr ''2010-07-16''),
           (''runtime'', JInt 148), (''genres'', JArr [JObj [(''name'', JStr ''Action'')]])]"

definition film_env :: env where
  "film_env =
     \<lparr>search = (\<lambda>q y. JArr [JObj [(''id'', JInt 27205)]]),
      details = (\<lambda>i. if i = JInt 27205 then inception else JNull),
      clock = ''2024-01-01T00:00:00'', repr = (\<lambda>v. []),
      str_to_int = (\<lambda>s. None), str_to_float = (\<lambda>s. None),
      int_to_float = (\<lambda>n. Some (of_int n))\<rparr>"

text \<open>A provider whose search succeeds and whose details call fails.\<close>

definition broken_env :: env where
  "broken_env =
     \<lparr>search = (\<lambda>q y. JArr [JObj [(''id'', JInt 27205)]]), details = (\<lambda>i. JNull),
      clock = ''2024-01-01T00:00:00'', repr = (\<lambda>v. []),
      str_to_int = (\<lambda>s. None), str_to_float = (\<lambda>s. None),
      int_to_float = (\<lambda>n. Some (of_int n))\<rparr>"

text \<open>
  A provider that finds the film when it is asked without a year and nothing when it is
  asked with one.
\<close>

definition yearless_env :: env where
  "yearless_env =
     \<lparr>search = (\<lambda>q y. case y of None \<Rightarrow> JArr [JObj [(''id'', JInt 27205)]]
                            | Some _ \<Rightarrow> JArr []),
      details = (\<lambda>i. if i = JInt 27205 then inception else JNull),
      clock = ''2024-01-01T00:00:00'', repr = (\<lambda>v. []),
      str_to_int = (\<lambda>s. None), str_to_float = (\<lambda>s. None),
      int_to_float = (\<lambda>n. Some (of_int n))\<rparr>"

text \<open>A stored document with the key of the film and no creation time at all.\<close>

definition unstamped :: doc where
  "unstamped = [(''title'', JStr ''Inception''), (''releaseDate'', JStr ''2010-07-16'')]"

text \<open>A channel post with a video and a caption.\<close>

definition post :: "string option \<Rightarrow> string \<Rightarrow> message" where
  "post fid c =
     \<lparr>msg_video = Some \<lparr>media_file_id = fid\<rparr>, msg_document = None, msg_caption = Some c\<rparr>"

text \<open>A stored document with the key of the film and an empty creation time.\<close>

definition undated :: doc where
  "undated =
     [(''title'', JStr ''Inception''), (''releaseDate'', JStr ''2010-07-16''),
      (''createdAt'', JStr [])]"

text \<open>A stored document with the key of the film, written earlier.\<close>

definition dated :: doc where
  "dated =
     [(''title'', JStr ''Inception''), (''releaseDate'', JStr ''2010-07-16''),
      (''createdAt'', JStr ''2023-05-05T10:00:00Z''),
      (''updatedAt'', JStr ''2023-05-05T10:00:00Z'')]"

text \<open>
  The document that the handler builds for the film from the post with the caption
  \<open>Inception\<close>: \<open>fid\<close> is the text of the file identifier and \<open>created\<close> the creation
  time.
\<close>

definition film_doc :: "string \<Rightarrow> string \<Rightarrow> doc" where
  "film_doc fid created =
     [(''title'', JStr ''Inception''), (''posterUrl'', JStr []),
      (''backdropUrl'', JStr []), (''description'', JNull),
      (''category'', JStr ''hollywood''), (''actors'', JStr []),
      (''director'', JStr []), (''producer'', JStr []), (''rating'', JReal 0),
      (''downloadLinks'', JArr []), (''telegramLinks'', JArr [JStr fid]),
      (''seasons'', JArr []), (''trailerLink'', JStr []),
      (''genres'', JArr [JStr ''Action'']),
      (''releaseDate'', JStr ''2010-07-16''), (''runtime'', JInt 148),
      (''tagline'', JNull), (''createdAt'', JStr created),
      (''updatedAt'', JStr ''2024-01-01T00:00:00Z''), (''__v'', JInt 0)]"

section \<open>The handler without search results\<close>

lemma minimal_path_raises: "minimal_path e caption m st = Inl UnboundLocalError"
  by (simp add: minimal_path_def unbound_local_def and_then_def Let_def)

text \<open>
  C1.  A post with media whose caption finds nothing at the provider should leave a
  minimal record in the store.  On the post with the caption \<open>zzz\<close> and the file \<open>F1\<close>,
  with a provider that answers every search with the empty list, the handler makes the
  two searches and then ends with \<open>UnboundLocalError\<close>; the store, empty before, is empty
  after.
\<close>

theorem minimal_record_not_stored:
  "handle silent_env (Some (post (Some ''F1'') ''zzz'')) []
     = (Raised UnboundLocalError, [], [(''Zzz'', None), (''zzz'', None)])"
  by code_simp

section \<open>The category classifier meets its description\<close>


lemma prefix_take_iff: "prefix xs ys \<longleftrightarrow> take (length xs) ys = xs"
  by (metis append_eq_conv_conj prefix_def take_is_prefix)

lemma contains_iff_offset:
  "contains kw s \<longleftrightarrow> (\<exists>i\<le>length s. take (length kw) (drop i s) = kw)"
proof (induction s)
  case Nil
  show ?case by auto
next
  case (Cons c cs)
  have "(\<exists>i\<le>length (c # cs). take (length kw) (drop i (c # cs)) = kw)
        \<longleftrightarrow> take (length kw) (c # cs) = kw \<or> (\<exists>j\<le>length cs. take (length kw) (drop j cs) = kw)"
    (is "?L \<longleftrightarrow> ?A \<or> ?B")
  proof
    assume ?L
    then obtain i where i: "i \<le> length (c # cs)" "take (length kw) (drop i (c # cs)) = kw"
      by blast
    show "?A \<or> ?B"
    proof (cases i)
      case 0
      with i show ?thesis by simp
    next
      case (Suc j)
      with i show ?thesis by auto
    qed
  next
    assume "?A \<or> ?B"
    then show ?L
    proof
      assume ?A
      then have "take (length kw) (drop 0 (c # cs)) = kw" by simp
      then show ?L by blast
    next
      assume ?B
      then obtain j where "j \<le> length cs" "take (length kw) (drop j cs) = kw" by blast
      then have "Suc j \<le> length (c # cs) \<and> take (length kw) (drop (Suc j) (c # cs)) = kw"
        by simp
      then show ?L by blast
    qed
  qed
  with Cons show ?case
    by (simp add: prefix_take_iff)
qed

lemma occurs_ci_iff:
  "occurs_ci kw s \<longleftrightarrow> (\<exists>i\<le>length s. map lower (take (length kw) (drop i s)) = map lower kw)"
proof -
  have "set [0..<Suc (length s)] = {i. i \<le> length s}"
    by auto
  then show ?thesis
    unfolding occurs_ci_def list_ex_iff by blast
qed

lemma contains_lower_occurs:
  assumes "map lower kw = kw"
  shows "contains kw (str_lower s) \<longleftrightarrow> occurs_ci kw s"
proof -
  have "take (length kw) (drop i (map lower s)) = kw
        \<longleftrightarrow> map lower (take (length kw) (drop i s)) = map lower kw" for i
    using assms by (simp add: take_map drop_map)
  then show ?thesis
    by (simp add: contains_iff_offset occurs_ci_iff str_lower_def)
qed

lemma keywords_lower:
  "map lower ''tamil'' = ''tamil''" "map lower ''telugu'' = ''telugu''"
  "map lower ''malayalam'' = ''malayalam''" "map lower ''kannada'' = ''kannada''"
  "map lower ''dubbed'' = ''dubbed''" "map lower ''dual audio'' = ''dual audio''"
  "map lower ''hindi'' = ''hindi''"
  by (simp_all add: lower_def is_upper_def)

lemmas keyword_occurs =
  contains_lower_occurs [OF keywords_lower(1)] contains_lower_occurs [OF keywords_lower(2)]
  contains_lower_occurs [OF keywords_lower(3)] contains_lower_occurs [OF keywords_lower(4)]
  contains_lower_occurs [OF keywords_lower(5)] contains_lower_occurs [OF keywords_lower(6)]
  contains_lower_occurs [OF keywords_lower(7)]

text \<open>
  C5.  For every caption, a missing one included, the classifier returns one of
  \<open>south\<close>, \<open>bollywood\<close> and \<open>hollywood\<close>, and the one that the rules of the
  specification select: a regional keyword gives \<open>south\<close>; otherwise \<open>dubbed\<close> or
  \<open>dual audio\<close> gives \<open>hollywood\<close>; otherwise \<open>hindi\<close> gives \<open>bollywood\<close>;
  otherwise \<open>hollywood\<close>; keywords are matched as blocks of the caption, whatever the
  case of the letters.
\<close>

theorem detect_category_spec:
  "detect_category c = classify_spec c
   \<and> detect_category c \<in> {''south'', ''bollywood'', ''hollywood''}"
  by (simp add: detect_category_def classify_spec_def Let_def keyword_occurs)

theorem detect_category_spec_witness:
  "detect_category (Some ''Inception (2010) [Hindi Dubbed]'') = ''hollywood''
   \<and> classify_spec (Some ''Inception (2010) [Hindi Dubbed]'') = ''hollywood''
   \<and> detect_category (Some ''Jailer Tamil Full Movie'') = ''south''
   \<and> detect_category None = ''hollywood''"
proof -
  have a: "detect_category (Some ''Inception (2010) [Hindi Dubbed]'') = ''hollywood''"
    by code_simp
  have b: "detect_category (Some ''Jailer Tamil Full Movie'') = ''south''"
    by code_simp
  have c: "detect_category None = ''hollywood''"
    by code_simp
  from a b c detect_category_spec [of "Some ''Inception (2010) [Hindi Dubbed]''"]
  show ?thesis by simp
qed

section \<open>The handler: what is written and when\<close>

lemma and_then_Inr: "and_then m f = Inr y \<longleftrightarrow> (\<exists>x. m = Inr x \<and> f x = Inr y)"
  by (cases m) (simp_all add: and_then_def)

lemma handle_with_media:
  assumes "message_media msg = Some m"
  shows "handle e (Some msg) st =
           (if \<not> truthy (fst (search_attempts e (message_caption msg)))
            then (Raised UnboundLocalError, st, snd (search_attempts e (message_caption msg)))
            else (fst (full_path e (message_caption msg) m
                         (fst (search_attempts e (message_caption msg))) st),
                  snd (full_path e (message_caption msg) m
                         (fst (search_attempts e (message_caption msg))) st),
                  snd (search_attempts e (message_caption msg))))"
  using assms
  by (simp add: handle_def minimal_path_raises Let_def split: prod.splits)

lemma build_ordered_doc_shape:
  assumes "build_ordered_doc e tmdb pt fid cat = Inr d"
  shows "map fst d = field_order"
    and "map_of d ''__v'' = Some (JInt 0)"
    and "map_of d ''telegramLinks'' = Some (JArr [JStr (case fid of None \<Rightarrow> [] | Some f \<Rightarrow> f)])"
    and "map_of d ''createdAt'' = Some (JStr (utc_now e))"
    and "map_of d ''updatedAt'' = Some (JStr (utc_now e))"
  using assms
  unfolding build_ordered_doc_def Let_def and_then_Inr field_order_def
  by auto


lemma py_item_Inr: "py_item (JObj kvs) k = Inr v \<longleftrightarrow> map_of kvs k = Some v"
  by (simp split: option.splits)

lemma py_get_obj: "py_get (JObj kvs) k = Inr (case map_of kvs k of None \<Rightarrow> JNull | Some v \<Rightarrow> v)"
  by (simp add: py_get_def)

lemma full_path_Saved:
  assumes "full_path e caption m results st = (Saved d, st')"
  shows "\<exists>tmdb pt fresh.
           build_ordered_doc e tmdb pt (media_file_id m) (detect_category (Some caption)) = Inr fresh
           \<and> preserve_created st (key_filter fresh) fresh = Inr d
           \<and> st' = find_one_and_replace st (key_filter fresh) d"
proof -
  from assms obtain tmdb pt fresh t r where
    b: "build_ordered_doc e tmdb pt (media_file_id m) (detect_category (Some caption)) = Inr fresh"
    and t: "py_item (JObj fresh) ''title'' = Inr t"
    and r: "py_item (JObj fresh) ''releaseDate'' = Inr r"
    and p: "preserve_created st [(''title'', t), (''releaseDate'', r)] fresh = Inr d"
    and s: "st' = find_one_and_replace st [(''title'', t), (''releaseDate'', r)] d"
    unfolding full_path_def Let_def
    by (auto simp: and_then_Inr split: sum.splits if_splits prod.splits)
  from t r have kf: "key_filter fresh = [(''title'', t), (''releaseDate'', r)]"
    by (auto simp: key_filter_def split: option.splits)
  have "preserve_created st (key_filter fresh) fresh = Inr d"
    using p by (simp only: kf)
  moreover have "st' = find_one_and_replace st (key_filter fresh) d"
    using s by (simp only: kf)
  ultimately show ?thesis using b by blast
qed

lemma full_path_other:
  assumes "full_path e caption m results st = (out, st')" and "\<And>d. out \<noteq> Saved d"
  shows "st' = st"
  using assms unfolding full_path_def Let_def
  by (auto split: sum.splits if_splits prod.splits)

lemma preserve_created_cases:
  assumes "preserve_created st flt fresh = Inr d"
  shows "(find_one st flt = None \<and> d = fresh)
         \<or> (\<exists>existing v. find_one st flt = Some existing
               \<and> d = AList.update ''createdAt'' v fresh
               \<and> (case map_of existing ''createdAt'' of
                     None \<Rightarrow> map_of fresh ''createdAt'' = Some v
                   | Some old \<Rightarrow> if truthy old then v = old
                                 else map_of fresh ''createdAt'' = Some v))"
  using assms unfolding preserve_created_def
  by (auto simp: and_then_Inr py_get_obj py_item_Inr split: option.splits if_splits)

lemma set_replace_first: "set (replace_first P y xs) \<subseteq> insert y (set xs)"
  by (induction xs) auto

lemma set_find_one_and_replace: "set (find_one_and_replace st flt d) \<subseteq> insert d (set st)"
  using set_replace_first [of "matches flt" d st]
  by (auto simp: find_one_and_replace_def)

lemma find_one_and_replace_found:
  "find_one st flt = Some x \<Longrightarrow> find_one_and_replace st flt d = replace_first (matches flt) d st"
  by (auto simp: find_one_and_replace_def find_one_def list_ex_iff find_Some_iff)


lemma handle_Saved:
  assumes "handle e u st = (Saved d, st', lg)"
  shows "\<exists>msg m tmdb pt fresh.
            u = Some msg \<and> message_media msg = Some m
            \<and> build_ordered_doc e tmdb pt (media_file_id m)
                 (detect_category (Some (message_caption msg))) = Inr fresh
            \<and> preserve_created st (key_filter fresh) fresh = Inr d
            \<and> st' = find_one_and_replace st (key_filter fresh) d"
proof (cases u)
  case None
  with assms show ?thesis by (simp add: handle_def)
next
  case (Some msg)
  show ?thesis
  proof (cases "message_media msg")
    case None
    with Some assms show ?thesis by (simp add: handle_def)
  next
    case m: (Some m)
    let ?c = "message_caption msg"
    let ?r = "fst (search_attempts e ?c)"
    from assms Some m have t: "truthy ?r"
      by (auto simp: handle_with_media split: if_splits)
    with assms Some m have "full_path e ?c m ?r st = (Saved d, st')"
      by (simp add: handle_with_media prod_eq_iff)
    from full_path_Saved [OF this] Some m show ?thesis by blast
  qed
qed

lemma handle_other:
  assumes "handle e u st = (out, st', lg)" and "\<And>d. out \<noteq> Saved d"
  shows "st' = st"
proof (cases u)
  case None
  with assms show ?thesis by (simp add: handle_def)
next
  case (Some msg)
  show ?thesis
  proof (cases "message_media msg")
    case None
    with Some assms show ?thesis by (simp add: handle_def)
  next
    case m: (Some m)
    let ?c = "message_caption msg"
    let ?r = "fst (search_attempts e ?c)"
    show ?thesis
    proof (cases "truthy ?r")
      case False
      with assms Some m show ?thesis by (simp add: handle_with_media)
    next
      case True
      with assms(1) Some m have "full_path e ?c m ?r st = (out, st')"
        by (simp add: handle_with_media prod_eq_iff)
      with assms(2) show ?thesis by (rule full_path_other [rotated])
    qed
  qed
qed

lemma handle_store:
  assumes "handle e u st = (out, st', lg)"
  shows "st' = st \<or>
         (\<exists>msg m tmdb pt fresh d.
            u = Some msg \<and> message_media msg = Some m
            \<and> build_ordered_doc e tmdb pt (media_file_id m)
                 (detect_category (Some (message_caption msg))) = Inr fresh
            \<and> preserve_created st (key_filter fresh) fresh = Inr d
            \<and> out = Saved d
            \<and> st' = find_one_and_replace st (key_filter fresh) d)"
proof (cases "\<exists>d. out = Saved d")
  case False
  with assms have "st' = st" by (auto dest: handle_other)
  then show ?thesis ..
next
  case True
  then obtain d where d: "out = Saved d" ..
  from handle_Saved [OF assms [unfolded d]] d show ?thesis by blast
qed

lemma preserved_shape:
  assumes b: "build_ordered_doc e tmdb pt fid cat = Inr fresh"
    and p: "preserve_created st flt fresh = Inr d"
  shows "map fst d = field_order"
    and "map_of d ''__v'' = Some (JInt 0)"
    and "map_of d ''telegramLinks'' = Some (JArr [JStr (case fid of None \<Rightarrow> [] | Some f \<Rightarrow> f)])"
    and "map_of d ''updatedAt'' = Some (JStr (utc_now e))"
    and "key_filter d = key_filter fresh"
proof -
  note sh = build_ordered_doc_shape [OF b]
  have mem: "''createdAt'' \<in> set (map fst fresh)"
    by (simp add: sh(1) field_order_def)
  from preserve_created_cases [OF p]
  obtain v where d: "d = fresh \<or> d = AList.update ''createdAt'' v fresh"
    by blast
  from d mem sh show "map fst d = field_order"
    by (auto simp: update_keys)
  from d sh show "map_of d ''__v'' = Some (JInt 0)"
    by (auto simp: update_conv')
  from d sh show "map_of d ''telegramLinks'' = Some (JArr [JStr (case fid of None \<Rightarrow> [] | Some f \<Rightarrow> f)])"
    by (auto simp: update_conv')
  from d sh show "map_of d ''updatedAt'' = Some (JStr (utc_now e))"
    by (auto simp: update_conv')
  from d show "key_filter d = key_filter fresh"
    by (auto simp: key_filter_def update_conv')
qed

text \<open>
  C8.  Every record that a call of the handler writes has its fields in the order of the
  data model, from \<open>title\<close> to \<open>updatedAt\<close> and the schema version last, and the schema
  version is 0: every document of the store after the call that was not there before has
  exactly the keys of \<open>field_order\<close> in that order.  The key of the schema version is
  \<open>__v\<close> in the program.  The branch without metadata writes no record (C1), so the
  records written are those of the branch with metadata.
\<close>

theorem written_records_ordered:
  assumes "handle e u st = (out, st', lg)"
  shows "\<forall>d\<in>set st'. d \<in> set st \<or> (map fst d = field_order \<and> map_of d ''__v'' = Some (JInt 0))"
proof -
  from handle_store [OF assms] show ?thesis
  proof
    assume "st' = st"
    then show ?thesis by simp
  next
    assume "\<exists>msg m tmdb pt fresh d.
            u = Some msg \<and> message_media msg = Some m
            \<and> build_ordered_doc e tmdb pt (media_file_id m)
                 (detect_category (Some (message_caption msg))) = Inr fresh
            \<and> preserve_created st (key_filter fresh) fresh = Inr d
            \<and> out = Saved d
            \<and> st' = find_one_and_replace st (key_filter fresh) d"
    then obtain msg m tmdb pt fresh d where
      "message_media msg = Some m" and
      b: "build_ordered_doc e tmdb pt (media_file_id m)
            (detect_category (Some (message_caption msg))) = Inr fresh"
      and p: "preserve_created st (key_filter fresh) fresh = Inr d"
      and s: "st' = find_one_and_replace st (key_filter fresh) d"
      by blast
    have "set st' \<subseteq> insert d (set st)"
      unfolding s by (rule set_find_one_and_replace)
    with preserved_shape(1,2) [OF b p] show ?thesis by auto
  qed
qed


theorem written_records_ordered_witness:
  "handle film_env (Some (post (Some ''F1'') ''Inception'')) []
     = (Saved (film_doc ''F1'' ''2024-01-01T00:00:00Z''),
        [film_doc ''F1'' ''2024-01-01T00:00:00Z''], [(''Inception'', None)])
   \<and> map fst (film_doc ''F1'' ''2024-01-01T00:00:00Z'') = field_order
   \<and> map_of (film_doc ''F1'' ''2024-01-01T00:00:00Z'') ''__v'' = Some (JInt 0)"
proof -
  have h: "handle film_env (Some (post (Some ''F1'') ''Inception'')) []
     = (Saved (film_doc ''F1'' ''2024-01-01T00:00:00Z''),
        [film_doc ''F1'' ''2024-01-01T00:00:00Z''], [(''Inception'', None)])"
    by code_simp
  from written_records_ordered [OF h] h show ?thesis
    by simp
qed

text \<open>
  C10.  In every record that a call of the handler writes, \<open>telegramLinks\<close> is a list of
  exactly one string: the file identifier of the media, and the empty string when the
  identifier is missing or empty.
\<close>

theorem telegram_links_single:
  assumes "handle e (Some msg) st = (out, st', lg)" and "message_media msg = Some m"
  shows "\<forall>d\<in>set st'. d \<in> set st
           \<or> map_of d ''telegramLinks''
               = Some (JArr [JStr (case media_file_id m of None \<Rightarrow> [] | Some f \<Rightarrow> f)])"
proof -
  from handle_store [OF assms(1)] show ?thesis
  proof
    assume "st' = st"
    then show ?thesis by simp
  next
    assume "\<exists>msg' m' tmdb pt fresh d.
            Some msg = Some msg' \<and> message_media msg' = Some m'
            \<and> build_ordered_doc e tmdb pt (media_file_id m')
                 (detect_category (Some (message_caption msg'))) = Inr fresh
            \<and> preserve_created st (key_filter fresh) fresh = Inr d
            \<and> out = Saved d
            \<and> st' = find_one_and_replace st (key_filter fresh) d"
    then obtain tmdb pt fresh d where
      b: "build_ordered_doc e tmdb pt (media_file_id m)
            (detect_category (Some (message_caption msg))) = Inr fresh"
      and p: "preserve_created st (key_filter fresh) fresh = Inr d"
      and s: "st' = find_one_and_replace st (key_filter fresh) d"
      using assms(2) by auto
    have "set st' \<subseteq> insert d (set st)"
      unfolding s by (rule set_find_one_and_replace)
    with preserved_shape(3) [OF b p] show ?thesis by auto
  qed
qed

text \<open>
  C6.  When the search attempts end with a list of candidates that is not empty, and
  the details call for the identifier of the first candidate returns nothing, the handler
  returns with the store as it was.
\<close>

theorem details_failure_writes_nothing:
  assumes "message_media msg = Some m"
    and "truthy (fst (search_attempts e (message_caption msg)))"
    and "py_first (fst (search_attempts e (message_caption msg))) = Inr candidate"
    and "py_get candidate ''id'' = Inr i"
    and "tmdb_details e i = JNull"
  shows "handle e (Some msg) st = (NoDetails, st, snd (search_attempts e (message_caption msg)))"
  using assms
  by (simp add: handle_with_media full_path_def and_then_def Let_def)

theorem details_failure_writes_nothing_witness:
  "handle broken_env (Some (post (Some ''F1'') ''Inception'')) [dated]
     = (NoDetails, [dated], [(''Inception'', None)])"
proof -
  let ?msg = "post (Some ''F1'') ''Inception''"
  have c: "message_caption ?msg = ''Inception''"
    by (simp add: post_def message_caption_def)
  have sa: "search_attempts broken_env ''Inception''
              = (JArr [JObj [(''id'', JInt 27205)]], [(''Inception'', None)])"
    by code_simp
  have 1: "message_media ?msg = Some \<lparr>media_file_id = Some ''F1''\<rparr>"
    by (simp add: post_def message_media_def)
  have 2: "truthy (fst (search_attempts broken_env (message_caption ?msg)))"
    by (simp add: c sa)
  have 3: "py_first (fst (search_attempts broken_env (message_caption ?msg)))
             = Inr (JObj [(''id'', JInt 27205)])"
    by (simp add: c sa)
  have 4: "py_get (JObj [(''id'', JInt 27205)]) ''id'' = Inr (JInt 27205)"
    by (simp add: py_get_def)
  have 5: "tmdb_details broken_env (JInt 27205) = JNull"
    by (simp add: tmdb_details_def broken_env_def)
  from details_failure_writes_nothing [OF 1 2 3 4 5, of "[dated]"] show ?thesis
    by (simp add: c sa)
qed


theorem telegram_links_single_witness:
  "handle film_env (Some (post None ''Inception'')) []
     = (Saved (film_doc [] ''2024-01-01T00:00:00Z''),
        [film_doc [] ''2024-01-01T00:00:00Z''], [(''Inception'', None)])
   \<and> map_of (film_doc [] ''2024-01-01T00:00:00Z'') ''telegramLinks'' = Some (JArr [JStr []])"
proof -
  have h: "handle film_env (Some (post None ''Inception'')) []
     = (Saved (film_doc [] ''2024-01-01T00:00:00Z''),
        [film_doc [] ''2024-01-01T00:00:00Z''], [(''Inception'', None)])"
    by code_simp
  have m: "message_media (post None ''Inception'') = Some \<lparr>media_file_id = None\<rparr>"
    by (simp add: post_def message_media_def)
  from telegram_links_single [OF h m] h show ?thesis
    by simp
qed

text \<open>
  C2, as stated, fails: the store holds a document with the key of the film whose
  \<open>createdAt\<close> is the empty string; the write replaces it, and \<open>createdAt\<close> of the stored
  record is the time of the write, not the value of the existing record.
\<close>

theorem created_at_not_kept_counterexample:
  "handle film_env (Some (post (Some ''F1'') ''Inception'')) [undated]
     = (Saved (film_doc ''F1'' ''2024-01-01T00:00:00Z''),
        [film_doc ''F1'' ''2024-01-01T00:00:00Z''], [(''Inception'', None)])
   \<and> find_one [undated] (key_filter (film_doc ''F1'' ''2024-01-01T00:00:00Z'')) = Some undated
   \<and> map_of undated ''createdAt'' = Some (JStr [])
   \<and> map_of (film_doc ''F1'' ''2024-01-01T00:00:00Z'') ''createdAt''
       \<noteq> map_of undated ''createdAt''"
  by code_simp

lemma full_path_Saved_source:
  assumes "full_path e caption m results st = (Saved d, st')"
  shows "\<exists>i pt fresh.
           candidate_id results = Inr i
           \<and> title_argument caption (tmdb_details e i) = Inr pt
           \<and> build_ordered_doc e (tmdb_details e i) pt (media_file_id m)
                (detect_category (Some caption)) = Inr fresh
           \<and> preserve_created st (key_filter fresh) fresh = Inr d
           \<and> st' = find_one_and_replace st (key_filter fresh) d"
proof -
  from assms obtain i where i: "candidate_id results = Inr i"
    unfolding full_path_def candidate_id_def by (auto split: sum.splits)
  let ?tmdb = "if truthy i then tmdb_details e i else JNull"
  from assms i have tr: "truthy ?tmdb"
    unfolding full_path_def candidate_id_def Let_def by (auto split: if_splits)
  then have ti: "truthy i" by (auto split: if_splits)
  then have tm: "?tmdb = tmdb_details e i" by simp
  from assms i tr obtain pt fresh t r where
    pt: "title_argument caption ?tmdb = Inr pt"
    and b: "build_ordered_doc e ?tmdb pt (media_file_id m) (detect_category (Some caption)) = Inr fresh"
    and t: "py_item (JObj fresh) ''title'' = Inr t"
    and r: "py_item (JObj fresh) ''releaseDate'' = Inr r"
    and p: "preserve_created st [(''title'', t), (''releaseDate'', r)] fresh = Inr d"
    and s: "st' = find_one_and_replace st [(''title'', t), (''releaseDate'', r)] d"
    unfolding full_path_def candidate_id_def title_argument_def Let_def
    by (auto simp: and_then_Inr split: sum.splits if_splits prod.splits)
  from t r have kf: "key_filter fresh = [(''title'', t), (''releaseDate'', r)]"
    by (auto simp: key_filter_def split: option.splits)
  have "preserve_created st (key_filter fresh) fresh = Inr d"
    using p by (simp only: kf)
  moreover have "st' = find_one_and_replace st (key_filter fresh) d"
    using s by (simp only: kf)
  moreover have "title_argument caption (tmdb_details e i) = Inr pt"
    using pt by (simp only: tm)
  moreover have "build_ordered_doc e (tmdb_details e i) pt (media_file_id m)
                   (detect_category (Some caption)) = Inr fresh"
    using b by (simp only: tm)
  ultimately show ?thesis using i by blast
qed


text \<open>
  C2, amended.  When the handler writes a record \<open>d\<close> for a post and the store holds a
  record with the same title and release date, \<open>d\<close> is the document built for the post
  from the details of the first candidate, in every field but \<open>createdAt\<close>; it stands in
  the place of the existing record; \<open>updatedAt\<close> is the time of the write; and
  \<open>createdAt\<close> is that of the existing record when that one is present and truthy, and
  the time of the write when it is missing or falsy (\<open>kept_created_at\<close>).
\<close>

theorem upsert_keeps_created_at:
  assumes "handle e (Some msg) st = (Saved d, st', lg)"
    and "message_media msg = Some m"
    and "find_one st (key_filter d) = Some existing"
  shows "\<exists>i pt fresh.
           candidate_id (fst (search_attempts e (message_caption msg))) = Inr i
           \<and> title_argument (message_caption msg) (tmdb_details e i) = Inr pt
           \<and> build_ordered_doc e (tmdb_details e i) pt (media_file_id m)
                (detect_category (Some (message_caption msg))) = Inr fresh
           \<and> d = AList.update ''createdAt'' (kept_created_at e existing) fresh
           \<and> map_of d ''createdAt'' = Some (kept_created_at e existing)
           \<and> map_of d ''updatedAt'' = Some (JStr (utc_now e))
           \<and> st' = replace_first (matches (key_filter d)) d st"
proof -
  let ?c = "message_caption msg"
  let ?r = "fst (search_attempts e ?c)"
  from assms(1,2) have "truthy ?r"
    by (auto simp: handle_with_media split: if_splits)
  with assms(1,2) have "full_path e ?c m ?r st = (Saved d, st')"
    by (simp add: handle_with_media prod_eq_iff)
  from full_path_Saved_source [OF this] obtain i pt fresh where
    i: "candidate_id ?r = Inr i"
    and pt: "title_argument ?c (tmdb_details e i) = Inr pt"
    and b: "build_ordered_doc e (tmdb_details e i) pt (media_file_id m)
              (detect_category (Some ?c)) = Inr fresh"
    and p: "preserve_created st (key_filter fresh) fresh = Inr d"
    and s: "st' = find_one_and_replace st (key_filter fresh) d"
    by blast
  have kf: "key_filter d = key_filter fresh"
    by (rule preserved_shape(5) [OF b p])
  have now: "map_of fresh ''createdAt'' = Some (JStr (utc_now e))"
    by (rule build_ordered_doc_shape(4) [OF b])
  from preserve_created_cases [OF p] assms(3) kf now
  have d: "d = AList.update ''createdAt'' (kept_created_at e existing) fresh"
    by (auto simp: kept_created_at_def split: option.splits if_splits)
  have "map_of d ''createdAt'' = Some (kept_created_at e existing)"
    by (subst d) (simp add: update_conv')
  moreover have "map_of d ''updatedAt'' = Some (JStr (utc_now e))"
    by (rule preserved_shape(4) [OF b p])
  moreover have "st' = replace_first (matches (key_filter d)) d st"
    using s assms(3) by (simp add: kf find_one_and_replace_found)
  ultimately show ?thesis using i pt b d by blast
qed


theorem upsert_keeps_created_at_witness:
  "handle film_env (Some (post (Some ''F2'') ''Inception'')) [dated]
     = (Saved (film_doc ''F2'' ''2023-05-05T10:00:00Z''),
        [film_doc ''F2'' ''2023-05-05T10:00:00Z''], [(''Inception'', None)])
   \<and> kept_created_at film_env dated = JStr ''2023-05-05T10:00:00Z''
   \<and> map_of (film_doc ''F2'' ''2023-05-05T10:00:00Z'') ''createdAt''
       = Some (JStr ''2023-05-05T10:00:00Z'')
   \<and> map_of (film_doc ''F2'' ''2023-05-05T10:00:00Z'') ''updatedAt''
       = Some (JStr ''2024-01-01T00:00:00Z'')
   \<and> handle film_env (Some (post (Some ''F2'') ''Inception'')) [unstamped]
     = (Saved (film_doc ''F2'' ''2024-01-01T00:00:00Z''),
        [film_doc ''F2'' ''2024-01-01T00:00:00Z''], [(''Inception'', None)])
   \<and> kept_created_at film_env unstamped = JStr ''2024-01-01T00:00:00Z''
   \<and> map_of (film_doc ''F2'' ''2024-01-01T00:00:00Z'') ''createdAt''
       = Some (JStr ''2024-01-01T00:00:00Z'')"
proof -
  let ?msg = "post (Some ''F2'') ''Inception''"
  let ?d = "film_doc ''F2'' ''2023-05-05T10:00:00Z''"
  let ?n = "film_doc ''F2'' ''2024-01-01T00:00:00Z''"
  have m: "message_media ?msg = Some \<lparr>media_file_id = Some ''F2''\<rparr>"
    by (simp add: post_def message_media_def)
  have h: "handle film_env (Some ?msg) [dated] = (Saved ?d, [?d], [(''Inception'', None)])"
    by code_simp
  have f: "find_one [dated] (key_filter ?d) = Some dated"
    by code_simp
  have k: "kept_created_at film_env dated = JStr ''2023-05-05T10:00:00Z''"
    by code_simp
  have u: "utc_now film_env = ''2024-01-01T00:00:00Z''"
    by code_simp
  have h': "handle film_env (Some ?msg) [unstamped] = (Saved ?n, [?n], [(''Inception'', None)])"
    by code_simp
  have f': "find_one [unstamped] (key_filter ?n) = Some unstamped"
    by code_simp
  have k': "kept_created_at film_env unstamped = JStr ''2024-01-01T00:00:00Z''"
    by code_simp
  from upsert_keeps_created_at [OF h m f]
  have a: "map_of ?d ''createdAt'' = Some (JStr ''2023-05-05T10:00:00Z'')"
    and b: "map_of ?d ''updatedAt'' = Some (JStr ''2024-01-01T00:00:00Z'')"
    by (auto simp only: k u)
  from upsert_keeps_created_at [OF h' m f']
  have c: "map_of ?n ''createdAt'' = Some (JStr ''2024-01-01T00:00:00Z'')"
    by (auto simp only: k')
  from h k a b h' k' c show ?thesis
    by (intro conjI)
qed

section \<open>The order of the search attempts\<close>

lemma year_here_length: "year_here s \<Longrightarrow> 4 \<le> length s"
  by (induction s rule: year_here.induct) auto

lemma year_search_length: "year_search pw s = Some y \<Longrightarrow> length y = 4"
proof (induction s arbitrary: pw)
  case Nil
  then show ?case by simp
next
  case (Cons c cs)
  show ?case
  proof (cases "\<not> pw \<and> year_here (c # cs)")
    case True
    then have "4 \<le> length (c # cs)"
      by (auto dest: year_here_length)
    with True Cons.prems show ?thesis by auto
  next
    case False
    with Cons show ?thesis by auto
  qed
qed

lemma parsed_year_nonempty: "year (extract_title_year c) = Some y \<Longrightarrow> y \<noteq> []"
  by (auto simp: extract_title_year_def Let_def dest: year_search_length split: if_splits)

lemma parsed_title_of_empty: "title (extract_title_year []) = []"
  by (simp add: extract_title_year_def)

lemma search_attempts_plan:
  "snd (search_attempts e c) = until_hit e (search_plan c)
   \<and> ((\<not> truthy (fst (search_attempts e c)))
        = (\<forall>a\<in>set (until_hit e (search_plan c)). \<not> truthy (tmdb_search e (fst a) (snd a))))"
proof (cases "title (extract_title_year c) = []")
  case True
  show ?thesis
  proof (cases "year (extract_title_year c)")
    case None
    with True show ?thesis
      by (simp add: search_attempts_def search_plan_def title_for_search_def Let_def)
  next
    case (Some y)
    then have "y \<noteq> []" by (rule parsed_year_nonempty)
    with True Some show ?thesis
      by (simp add: search_attempts_def search_plan_def title_for_search_def Let_def)
  qed
next
  case False
  then have c: "c \<noteq> []"
    using parsed_title_of_empty by auto
  show ?thesis
  proof (cases "year (extract_title_year c)")
    case None
    with False c show ?thesis
      by (simp add: search_attempts_def search_plan_def title_for_search_def Let_def)
  next
    case (Some y)
    then have "y \<noteq> []" by (rule parsed_year_nonempty)
    with False c Some show ?thesis
      by (simp add: search_attempts_def search_plan_def title_for_search_def Let_def)
  qed
qed

lemma search_attempts_result:
  "fst (search_attempts e c)
     = tmdb_search e (fst (last (until_hit e (search_plan c))))
         (snd (last (until_hit e (search_plan c))))"
proof (cases "title (extract_title_year c) = []")
  case True
  show ?thesis
  proof (cases "year (extract_title_year c)")
    case None
    with True show ?thesis
      by (simp add: search_attempts_def search_plan_def title_for_search_def Let_def)
  next
    case (Some y)
    then have "y \<noteq> []" by (rule parsed_year_nonempty)
    with True Some show ?thesis
      by (simp add: search_attempts_def search_plan_def title_for_search_def Let_def)
  qed
next
  case False
  then have c: "c \<noteq> []"
    using parsed_title_of_empty by auto
  show ?thesis
  proof (cases "year (extract_title_year c)")
    case None
    with False c show ?thesis
      by (simp add: search_attempts_def search_plan_def title_for_search_def Let_def)
  next
    case (Some y)
    then have "y \<noteq> []" by (rule parsed_year_nonempty)
    with False c Some show ?thesis
      by (simp add: search_attempts_def search_plan_def title_for_search_def Let_def)
  qed
qed


text \<open>
  C7, amended.  The handler issues the attempts of \<open>search_plan\<close> in their order and
  stops at the first whose result is not empty: the search title with the parsed year
  when a year was parsed, the search title alone, and the raw caption when the parsed
  title is not empty and differs from it; the search title is the parsed title, or the raw
  caption when the parsed title is empty.  When every attempt issued returned an empty
  result the handler goes on with the branch without metadata (\<open>minimal_path\<close>, lines 183
  to 215); otherwise the last attempt issued returned a result that is not empty and the
  handler goes on with that result in the branch of lines 217 to 238 (\<open>full_path\<close>).
\<close>

theorem search_order:
  assumes "message_media msg = Some m"
  shows "snd (snd (handle e (Some msg) st)) = until_hit e (search_plan (message_caption msg))
   \<and> ((\<forall>a\<in>set (until_hit e (search_plan (message_caption msg))).
          \<not> truthy (tmdb_search e (fst a) (snd a)))
        \<longrightarrow> handle e (Some msg) st
             = (case minimal_path e (message_caption msg) m st of
                  Inl err \<Rightarrow> (Raised err, st, until_hit e (search_plan (message_caption msg)))
                | Inr (d, st') \<Rightarrow>
                    (Saved d, st', until_hit e (search_plan (message_caption msg)))))
   \<and> (\<not> (\<forall>a\<in>set (until_hit e (search_plan (message_caption msg))).
             \<not> truthy (tmdb_search e (fst a) (snd a)))
        \<longrightarrow> truthy (tmdb_search e
                      (fst (last (until_hit e (search_plan (message_caption msg)))))
                      (snd (last (until_hit e (search_plan (message_caption msg))))))
            \<and> handle e (Some msg) st
                = (fst (full_path e (message_caption msg) m
                          (tmdb_search e
                             (fst (last (until_hit e (search_plan (message_caption msg)))))
                             (snd (last (until_hit e (search_plan (message_caption msg))))))
                          st),
                   snd (full_path e (message_caption msg) m
                          (tmdb_search e
                             (fst (last (until_hit e (search_plan (message_caption msg)))))
                             (snd (last (until_hit e (search_plan (message_caption msg))))))
                          st),
                   until_hit e (search_plan (message_caption msg))))"
proof -
  let ?c = "message_caption msg"
  let ?issued = "until_hit e (search_plan ?c)"
  let ?final = "tmdb_search e (fst (last ?issued)) (snd (last ?issued))"
  let ?empty = "\<forall>a\<in>set ?issued. \<not> truthy (tmdb_search e (fst a) (snd a))"
  have lg: "snd (search_attempts e ?c) = ?issued"
    and em: "(\<not> truthy (fst (search_attempts e ?c))) = ?empty"
    using search_attempts_plan [of e ?c] by simp_all
  have rs: "fst (search_attempts e ?c) = ?final"
    by (rule search_attempts_result)
  have 1: "snd (snd (handle e (Some msg) st)) = ?issued"
    using assms lg by (simp add: handle_with_media)
  have 2: "handle e (Some msg) st
             = (case minimal_path e ?c m st of
                  Inl err \<Rightarrow> (Raised err, st, ?issued)
                | Inr (d, st') \<Rightarrow> (Saved d, st', ?issued))"
    if ?empty
  proof -
    from that em have "\<not> truthy (fst (search_attempts e ?c))" by simp
    with assms lg show ?thesis
      by (simp add: handle_with_media minimal_path_raises)
  qed
  have 3: "truthy ?final
           \<and> handle e (Some msg) st
               = (fst (full_path e ?c m ?final st), snd (full_path e ?c m ?final st), ?issued)"
    if "\<not> ?empty"
  proof -
    from that em have t: "truthy (fst (search_attempts e ?c))" by blast
    then have "truthy ?final" by (simp only: rs)
    moreover from assms t have "handle e (Some msg) st
               = (fst (full_path e ?c m ?final st), snd (full_path e ?c m ?final st), ?issued)"
      by (simp add: handle_with_media lg rs [symmetric])
    ultimately show ?thesis ..
  qed
  from 1 2 3 show ?thesis by blast
qed


text \<open>
  C7, as stated, fails on the caption \<open>!!!\<close>, whose parsed title is empty: the handler
  searches once, for the raw caption, where the stated order searches for the empty
  parsed title and then, the caption differing from it, for the raw caption.
\<close>

theorem stated_order_counterexample:
  "snd (snd (handle silent_env (Some (post (Some ''F1'') ''!!!'')) [])) = [(''!!!'', None)]
   \<and> until_hit silent_env (stated_plan ''!!!'') = [([], None), (''!!!'', None)]"
  by code_simp

theorem search_order_witness:
  "handle silent_env (Some (post (Some ''F1'') ''Inception (2010)'')) []
     = (Raised UnboundLocalError, [],
        [(''Inception'', Some ''2010''), (''Inception'', None), (''Inception (2010)'', None)])
   \<and> handle yearless_env (Some (post (Some ''F1'') ''Inception (2010)'')) []
     = (Saved (film_doc ''F1'' ''2024-01-01T00:00:00Z''),
        [film_doc ''F1'' ''2024-01-01T00:00:00Z''],
        [(''Inception'', Some ''2010''), (''Inception'', None)])"
proof -
  let ?msg = "post (Some ''F1'') ''Inception (2010)''"
  let ?m = "\<lparr>media_file_id = Some ''F1''\<rparr>"
  let ?cand = "JArr [JObj [(''id'', JInt 27205)]]"
  let ?d = "film_doc ''F1'' ''2024-01-01T00:00:00Z''"
  have m: "message_media ?msg = Some ?m"
    by (simp add: post_def message_media_def)
  have c: "message_caption ?msg = ''Inception (2010)''"
    by (simp add: post_def message_caption_def)
  have u: "until_hit silent_env (search_plan ''Inception (2010)'')
             = [(''Inception'', Some ''2010''), (''Inception'', None), (''Inception (2010)'', None)]"
    by code_simp
  have s: "tmdb_search silent_env q y = JArr []" for q y
    by (simp add: tmdb_search_def silent_env_def)
  have u': "until_hit yearless_env (search_plan ''Inception (2010)'')
             = [(''Inception'', Some ''2010''), (''Inception'', None)]"
    by code_simp
  have s': "tmdb_search yearless_env ''Inception'' None = ?cand"
    by code_simp
  have f: "full_path yearless_env ''Inception (2010)'' ?m ?cand [] = (Saved ?d, [?d])"
    by code_simp
  from search_order [OF m, of silent_env "[]"]
  have a: "handle silent_env (Some ?msg) []
     = (Raised UnboundLocalError, [],
        [(''Inception'', Some ''2010''), (''Inception'', None), (''Inception (2010)'', None)])"
    by (simp add: c u s minimal_path_raises)
  from search_order [OF m, of yearless_env "[]"]
  have b: "handle yearless_env (Some ?msg) []
     = (Saved ?d, [?d], [(''Inception'', Some ''2010''), (''Inception'', None)])"
    by (simp add: c u' s' f)
  from a b show ?thesis ..
qed

section \<open>Character classes\<close>

lemma of_char_less_256: "(of_char c :: nat) < 256"
  by (metis of_char_mod_256 mod_less_divisor zero_less_numeral)

lemma of_char_lower:
  "(of_char (lower c) :: nat) = (if is_upper c then of_char c + 32 else of_char c)"
  by (simp add: lower_def is_upper_def)

lemma of_char_upper:
  "(of_char (upper c) :: nat) = (if is_lower c then of_char c - 32 else of_char c)"
  using of_char_less_256 [of c] by (auto simp: upper_def is_lower_def)


lemma digit_is_word: "is_digit c \<Longrightarrow> is_word c"
  by (simp add: is_word_def)



lemma lower_digit: "is_digit (lower c) \<longleftrightarrow> is_digit c"
  by (auto simp: is_digit_def of_char_lower is_upper_def)

lemma upper_digit: "is_digit (upper c) \<longleftrightarrow> is_digit c"
  by (auto simp: is_digit_def of_char_upper is_lower_def)











section \<open>What the string operations keep\<close>

declare split_ws.simps [simp del]












section \<open>Parsing a title again\<close>

declare closer.simps [simp del]



















section \<open>The year that the parser returns\<close>











section \<open>Blocks of digits\<close>

























section \<open>From the title back to the working text\<close>








end
